theory Spec2Isabelle
  imports Main "HOL-Library.Sublist"
begin

section \<open>The native Porter stemmer\<close>

text \<open>
  \<^verbatim>\<open>Stemmer.cpp\<close> declares the native interface
  \<^verbatim>\<open>int stem( struct stemmer* z, char* b, int k )\<close> as \<^verbatim>\<open>extern "C"\<close> and calls it;
  the body of the algorithm is not part of the C++ sources. The wrapper
  \<^verbatim>\<open>Stemmer::StemWord\<close> is embedded below with the native function as a parameter,
  so that every fact that rests on the wrapper alone holds for any native stemmer. The
  facts about particular words need the algorithm, which is written down here as
  section 4 of the specification describes it.
\<close>

subsection \<open>Character classifiers (specification 4.1)\<close>

text \<open>Modelled from the spec: the vowels a, e, i, o, u of the missing native stemmer.\<close>

definition isVowelLetter :: "char \<Rightarrow> bool" where
  "isVowelLetter c =
     (c = CHR ''a'' \<or> c = CHR ''e'' \<or> c = CHR ''i'' \<or> c = CHR ''o'' \<or> c = CHR ''u'')"

text \<open>
  Modelled from the spec: \<^verbatim>\<open>isConsonant(buffer, index)\<close>, part of the native stemmer that
  is missing from the sources. A letter other than a, e, i, o, u, y is a consonant; y at
  index 0 is a consonant; y elsewhere is a consonant unless the character before it is a
  vowel, that is, y takes the class of its predecessor.
\<close>

fun isConsonant :: "string \<Rightarrow> nat \<Rightarrow> bool" where
  "isConsonant b 0 = (\<not> isVowelLetter (b ! 0))"
| "isConsonant b (Suc i) =
     (if b ! Suc i = CHR ''y'' then isConsonant b i else \<not> isVowelLetter (b ! Suc i))"

text \<open>
  Modelled from the spec: the classification of each character of a buffer by
  \<open>isConsonant\<close>, which the missing \<^verbatim>\<open>measure\<close> scans; \<open>True\<close> marks a consonant.
\<close>

definition cvPattern :: "string \<Rightarrow> bool list" where
  "cvPattern b = map (isConsonant b) [0..<length b]"

text \<open>
  Modelled from the spec: the count of the VC transitions of such a pattern, the places
  where a vowel is directly followed by a consonant.
\<close>

fun countVC :: "bool list \<Rightarrow> nat" where
  "countVC (False # True # fs) = Suc (countVC (True # fs))"
| "countVC (f # fs) = countVC fs"
| "countVC [] = 0"

text \<open>
  Modelled from the spec: \<^verbatim>\<open>measure(buffer, upperBoundInclusive)\<close> of the missing native
  stemmer, the number m of the form [C](VC){m}[V]. The argument is the prefix
  \<^verbatim>\<open>buffer[0..=upperBoundInclusive]\<close> itself, so that the empty stem (boundary before the
  first character) has a measure too.
\<close>

definition measureVC :: "string \<Rightarrow> nat" where
  "measureVC b = countVC (cvPattern b)"

text \<open>
  Modelled from the spec: the test "contains at least one vowel" of steps 1b and 1c of
  the missing native stemmer, with vowels as \<open>isConsonant\<close> classifies them.
\<close>

definition containsVowel :: "string \<Rightarrow> bool" where
  "containsVowel b = (False \<in> set (cvPattern b))"

text \<open>
  Modelled from the spec: \<^verbatim>\<open>doubleConsonant(buffer, index)\<close>: the characters at
  \<open>index - 1\<close> and \<open>index\<close> are identical consonants.
\<close>

definition doubleConsonant :: "string \<Rightarrow> nat \<Rightarrow> bool" where
  "doubleConsonant b i =
     (1 \<le> i \<and> i < length b \<and> b ! i = b ! (i - 1) \<and> isConsonant b i)"

text \<open>
  Modelled from the spec: \<^verbatim>\<open>cvcRule(buffer, index)\<close>: the three characters ending at
  \<open>index\<close> are consonant, vowel, consonant and the last one is none of w, x, y.
\<close>

definition cvcRule :: "string \<Rightarrow> nat \<Rightarrow> bool" where
  "cvcRule b i =
     (2 \<le> i \<and> i < length b \<and>
      isConsonant b i \<and> \<not> isConsonant b (i - 1) \<and> isConsonant b (i - 2) \<and>
      b ! i \<noteq> CHR ''w'' \<and> b ! i \<noteq> CHR ''x'' \<and> b ! i \<noteq> CHR ''y'')"

subsection \<open>Suffixes and suffix rules (specification 3)\<close>

text \<open>
  Modelled from the spec: "the suffix matches the buffer's tail" and "the stem before the
  suffix" of the missing native stemmer.
\<close>

definition ends :: "string \<Rightarrow> string \<Rightarrow> bool" where
  "ends w sfx = (length sfx \<le> length w \<and> drop (length w - length sfx) w = sfx)"

definition stemBefore :: "string \<Rightarrow> string \<Rightarrow> string" where
  "stemBefore w sfx = take (length w - length sfx) w"

text \<open>
  Modelled from the spec: a suffix rule is a tuple of suffix, replacement, minimum measure
  and an optional extra predicate on the stem before the suffix. The minimum is the bound
  that the measure has to exceed (0 for "measure > 0", 1 for "measure > 1").
\<close>

record suffixRule =
  suffix :: string
  replacement :: string
  minimumMeasure :: nat
  extraPredicate :: "(string \<Rightarrow> bool) option"

text \<open>Modelled from the spec: a rule without extra predicate.\<close>

definition rule :: "string \<Rightarrow> string \<Rightarrow> nat \<Rightarrow> suffixRule" where
  "rule s r m = \<lparr>suffix = s, replacement = r, minimumMeasure = m, extraPredicate = None\<rparr>"

text \<open>
  Modelled from the spec: the gate of a rule, on the stem before its suffix: the measure
  exceeds the minimum and the extra predicate, if there is one, holds.
\<close>

definition ruleFires :: "suffixRule \<Rightarrow> string \<Rightarrow> bool" where
  "ruleFires r st =
     (minimumMeasure r < measureVC st \<and>
      (case extraPredicate r of None \<Rightarrow> True | Some p \<Rightarrow> p st))"

text \<open>
  Modelled from the spec: the application of a rule table of the missing native stemmer.
  The rules are tried in order; the first one whose suffix matches the tail of the buffer
  decides: its replacement is made if its gate holds, and otherwise the buffer is left as
  it is. No later rule is tried once a suffix has matched.
\<close>

fun applyRules :: "suffixRule list \<Rightarrow> string \<Rightarrow> string" where
  "applyRules [] w = w"
| "applyRules (r # rs) w =
     (if ends w (suffix r)
      then (if ruleFires r (stemBefore w (suffix r))
            then stemBefore w (suffix r) @ replacement r else w)
      else applyRules rs w)"

subsection \<open>Step 1 (specification 4.2)\<close>

text \<open>
  Modelled from the spec: step 1a of the missing native stemmer, the plural suffixes in
  their fixed order.
\<close>

definition step1a :: "string \<Rightarrow> string" where
  "step1a w =
     (if ends w ''sses'' then stemBefore w ''sses'' @ ''ss''
      else if ends w ''ies'' then stemBefore w ''ies'' @ ''i''
      else if ends w ''ss'' then w
      else if ends w ''s'' then stemBefore w ''s''
      else w)"

text \<open>
  Modelled from the spec: the cleanup 1b1 of the missing native stemmer, run on the stem
  left after "ed" or "ing" has been removed.
\<close>

definition step1b1 :: "string \<Rightarrow> string" where
  "step1b1 st =
     (if ends st ''at'' \<or> ends st ''bl'' \<or> ends st ''iz'' then st @ ''e''
      else if doubleConsonant st (length st - 1) \<and>
              \<not> (ends st ''l'' \<or> ends st ''s'' \<or> ends st ''z'') then butlast st
      else if measureVC st = 1 \<and> cvcRule st (length st - 1) then st @ ''e''
      else st)"

text \<open>
  Modelled from the spec: step 1b of the missing native stemmer. The first of "eed",
  "ed", "ing" that matches decides; when its gate fails the word is left as it is.
\<close>

definition step1b :: "string \<Rightarrow> string" where
  "step1b w =
     (if ends w ''eed''
      then (if 0 < measureVC (stemBefore w ''eed'') then stemBefore w ''eed'' @ ''ee'' else w)
      else if ends w ''ed''
      then (if containsVowel (stemBefore w ''ed'') then step1b1 (stemBefore w ''ed'') else w)
      else if ends w ''ing''
      then (if containsVowel (stemBefore w ''ing'') then step1b1 (stemBefore w ''ing'') else w)
      else w)"

text \<open>Modelled from the spec: step 1c of the missing native stemmer.\<close>

definition step1c :: "string \<Rightarrow> string" where
  "step1c w =
     (if ends w ''y'' \<and> containsVowel (stemBefore w ''y'')
      then stemBefore w ''y'' @ ''i'' else w)"

text \<open>Modelled from the spec: step 1, its three sub-steps in order.\<close>

definition step1 :: "string \<Rightarrow> string" where
  "step1 w = step1c (step1b (step1a w))"

subsection \<open>Steps 2, 3 and 4 (specification 4.3 to 4.5)\<close>

text \<open>
  Modelled from the spec: the suffix table of step 2. The specification names six of its
  about twenty entries; the others are those of the classic algorithm, to which the
  specification refers. Every entry is gated by measure > 0.
\<close>

definition step2Rules :: "suffixRule list" where
  "step2Rules =
     [rule ''ational'' ''ate'' 0, rule ''tional'' ''tion'' 0,
      rule ''enci'' ''ence'' 0, rule ''anci'' ''ance'' 0,
      rule ''izer'' ''ize'' 0,
      rule ''bli'' ''ble'' 0, rule ''alli'' ''al'' 0, rule ''entli'' ''ent'' 0,
      rule ''eli'' ''e'' 0, rule ''ousli'' ''ous'' 0,
      rule ''ization'' ''ize'' 0, rule ''ation'' ''ate'' 0, rule ''ator'' ''ate'' 0,
      rule ''alism'' ''al'' 0, rule ''iveness'' ''ive'' 0, rule ''fulness'' ''ful'' 0,
      rule ''ousness'' ''ous'' 0,
      rule ''aliti'' ''al'' 0, rule ''iviti'' ''ive'' 0, rule ''biliti'' ''ble'' 0,
      rule ''logi'' ''log'' 0]"

text \<open>Modelled from the spec: step 2, the first matching entry of its table.\<close>

definition step2 :: "string \<Rightarrow> string" where
  "step2 w = applyRules step2Rules w"

text \<open>Modelled from the spec: the seven entries of step 3, each gated by measure > 0.\<close>

definition step3Rules :: "suffixRule list" where
  "step3Rules =
     [rule ''icate'' ''ic'' 0, rule ''ative'' '''' 0, rule ''alize'' ''al'' 0,
      rule ''iciti'' ''ic'' 0, rule ''ical'' ''ic'' 0, rule ''ful'' '''' 0,
      rule ''ness'' '''' 0]"

text \<open>Modelled from the spec: step 3, the first matching entry of its table.\<close>

definition step3 :: "string \<Rightarrow> string" where
  "step3 w = applyRules step3Rules w"

text \<open>
  Modelled from the spec: the extra predicate of the "sion"/"tion" entry of step 4: the
  stem before "ion" ends in s or t.
\<close>

definition afterSOrT :: "string \<Rightarrow> bool" where
  "afterSOrT st = (ends st ''s'' \<or> ends st ''t'')"

text \<open>
  Modelled from the spec: the entries of step 4 of the missing native stemmer, each a
  removal gated by measure > 1; the entry for "ion" carries the extra predicate.
\<close>

definition step4Rules :: "suffixRule list" where
  "step4Rules =
     [rule ''al'' '''' 1, rule ''ance'' '''' 1, rule ''ence'' '''' 1, rule ''er'' '''' 1,
      rule ''ic'' '''' 1, rule ''able'' '''' 1, rule ''ible'' '''' 1, rule ''ant'' '''' 1,
      rule ''ement'' '''' 1, rule ''ment'' '''' 1, rule ''ent'' '''' 1,
      (rule ''ion'' '''' 1)\<lparr>extraPredicate := Some afterSOrT\<rparr>,
      rule ''ou'' '''' 1, rule ''ism'' '''' 1, rule ''ate'' '''' 1, rule ''iti'' '''' 1,
      rule ''ous'' '''' 1, rule ''ive'' '''' 1, rule ''ize'' '''' 1]"

text \<open>Modelled from the spec: step 4, the first matching entry of its table.\<close>

definition step4 :: "string \<Rightarrow> string" where
  "step4 w = applyRules step4Rules w"

subsection \<open>Step 5 (specification 4.6)\<close>

text \<open>
  Modelled from the spec: step 5a of the missing native stemmer, the removal of a final e.
\<close>

definition step5a :: "string \<Rightarrow> string" where
  "step5a w =
     (if ends w ''e'' \<and>
         (1 < measureVC (stemBefore w ''e'') \<or>
          (measureVC (stemBefore w ''e'') = 1 \<and>
           \<not> cvcRule (stemBefore w ''e'') (length (stemBefore w ''e'') - 1)))
      then stemBefore w ''e'' else w)"

text \<open>
  Modelled from the spec: step 5b of the missing native stemmer, the removal of one l of
  a final double l.
\<close>

definition step5b :: "string \<Rightarrow> string" where
  "step5b w = (if 1 < measureVC w \<and> ends w ''ll'' then butlast w else w)"

text \<open>Modelled from the spec: step 5, its two sub-steps in order.\<close>

definition step5 :: "string \<Rightarrow> string" where
  "step5 w = step5b (step5a w)"

subsection \<open>The engine\<close>

text \<open>
  Modelled from the spec: the operation \<^verbatim>\<open>stem(word)\<close> of the stemmer engine, the five
  stages in sequence (specification 2).
\<close>

definition stemEngine :: "string \<Rightarrow> string" where
  "stemEngine w = step5 (step4 (step3 (step2 (step1 w))))"

text \<open>
  Modelled from the spec: the native function \<^verbatim>\<open>int stem(struct stemmer* z, char* b, int k)\<close>,
  declared in \<^verbatim>\<open>Stemmer.cpp\<close> and defined outside the C++ sources. The specification
  gives the engine as a map from a word to its stem and says nothing about the integers;
  they are read here the way the caller uses them: \<open>k\<close> is the number of characters of the
  word in the buffer (the caller passes \<^verbatim>\<open>word->Length\<close>) and the value returned is the
  number of characters of the stem (the caller names it \<^verbatim>\<open>newLen\<close>). The stem is
  written over the front of the buffer. The result is the returned integer and the new
  contents of the buffer.
\<close>

definition stem :: "string \<Rightarrow> int \<Rightarrow> int \<times> string" where
  "stem b k =
     (let r = stemEngine (take (nat k) b)
      in (int (length r), r @ drop (length r) b))"

section \<open>The managed wrapper \<^verbatim>\<open>Stemmer::StemWord\<close>\<close>

text \<open>
  The wrapper works on three kinds of objects: managed \<^verbatim>\<open>String\<close> objects, which it
  only reads; blocks of unmanaged memory from \<^verbatim>\<open>Marshal::StringToHGlobalAnsi\<close>; and
  stemmer contexts from \<^verbatim>\<open>create_stemmer\<close>. A \<^verbatim>\<open>String^\<close> is a handle or
  \<^verbatim>\<open>nullptr\<close> (\<open>None\<close>); an \<^verbatim>\<open>IntPtr\<close> is an address, 0 for \<^verbatim>\<open>IntPtr::Zero\<close>.
  Characters are 8-bit, so the ANSI copy of a word has one byte for each character of the
  word, followed by the terminating zero byte.
\<close>

record world =
  strings :: "nat \<Rightarrow> string"
  memory :: "nat \<Rightarrow> string"
  hglobal :: "nat list"
  stemmers :: "nat list"

text \<open>
  \<open>strings\<close> gives the characters of each managed string, \<open>memory\<close> the bytes found at
  each unmanaged address, \<open>hglobal\<close> the addresses of the blocks that are allocated and
  \<open>stemmers\<close> the contexts that are allocated.
\<close>

datatype exception = NullReferenceException | ArgumentOutOfRangeException

text \<open>In .NET, \<^verbatim>\<open>ArgumentOutOfRangeException\<close> derives from \<^verbatim>\<open>ArgumentException\<close>;
  \<^verbatim>\<open>NullReferenceException\<close> does not.\<close>

fun isArgumentException :: "exception \<Rightarrow> bool" where
  "isArgumentException ArgumentOutOfRangeException = True"
| "isArgumentException NullReferenceException = False"

type_synonym nativeStem = "string \<Rightarrow> int \<Rightarrow> int \<times> string"

text \<open>An address above every address in use; never 0.\<close>

definition freshAddress :: "nat list \<Rightarrow> nat" where
  "freshAddress used = Suc (fold max used 0)"

text \<open>
  \<^verbatim>\<open>Marshal::StringToHGlobalAnsi\<close> returns 0 for a null string and allocates nothing;
  otherwise it copies the characters and a terminating zero byte into a new block.
  Allocation is taken to succeed.
\<close>

definition StringToHGlobalAnsi :: "nat option \<Rightarrow> world \<Rightarrow> nat \<times> world" where
  "StringToHGlobalAnsi word s =
     (case word of
        None \<Rightarrow> (0, s)
      | Some h \<Rightarrow>
          (let p = freshAddress (hglobal s)
           in (p, s\<lparr>memory := (memory s)(p := strings s h @ [CHR 0x00]),
                    hglobal := p # hglobal s\<rparr>)))"

text \<open>\<^verbatim>\<open>Marshal::FreeHGlobal\<close> does nothing for \<^verbatim>\<open>IntPtr::Zero\<close>.\<close>

definition FreeHGlobal :: "nat \<Rightarrow> world \<Rightarrow> world" where
  "FreeHGlobal p s = (if p = 0 then s else s\<lparr>hglobal := removeAll p (hglobal s)\<rparr>)"

text \<open>
  Modelled from the spec: \<^verbatim>\<open>create_stemmer\<close> and \<^verbatim>\<open>free_stemmer\<close>, declared in
  \<^verbatim>\<open>Stemmer.cpp\<close> and defined outside the C++ sources: they allocate and release the
  context object of one call.
\<close>

definition create_stemmer :: "world \<Rightarrow> nat \<times> world" where
  "create_stemmer s =
     (let z = freshAddress (stemmers s) in (z, s\<lparr>stemmers := z # stemmers s\<rparr>))"

definition free_stemmer :: "nat \<Rightarrow> world \<Rightarrow> world" where
  "free_stemmer z s = s\<lparr>stemmers := removeAll z (stemmers s)\<rparr>"

text \<open>
  The call \<^verbatim>\<open>stem( z, b, k )\<close> of a native stemmer \<open>f\<close>: it works in place on the bytes at
  \<open>b\<close>. The context \<open>z\<close> is fresh at every call and carries nothing into it.
\<close>

definition callStem :: "nativeStem \<Rightarrow> nat \<Rightarrow> nat \<Rightarrow> int \<Rightarrow> world \<Rightarrow> int \<times> world" where
  "callStem f z b k s =
     (let (n, bytes) = f (memory s b) k in (n, s\<lparr>memory := (memory s)(b := bytes)\<rparr>))"

text \<open>\<^verbatim>\<open>String::Substring(startIndex, length)\<close> with its range checks.\<close>

definition Substring :: "string \<Rightarrow> int \<Rightarrow> int \<Rightarrow> exception + string" where
  "Substring str startIndex len =
     (if startIndex < 0 \<or> len < 0 \<or> int (length str) - len < startIndex
      then Inl ArgumentOutOfRangeException
      else Inr (take (nat len) (drop (nat startIndex) str)))"

text \<open>
  The body of the \<^verbatim>\<open>try\<close> block. Evaluating \<^verbatim>\<open>word->Length\<close> on \<^verbatim>\<open>nullptr\<close> raises
  \<^verbatim>\<open>NullReferenceException\<close> before the native function is called.
\<close>

definition tryBody ::
  "nativeStem \<Rightarrow> nat option \<Rightarrow> nat \<Rightarrow> nat \<Rightarrow> world \<Rightarrow> (exception + string) \<times> world" where
  "tryBody f word stringPtr z s =
     (case word of
        None \<Rightarrow> (Inl NullReferenceException, s)
      | Some h \<Rightarrow>
          (let (newLen, s') = callStem f z stringPtr (int (length (strings s h))) s
           in (Substring (strings s' h) 0 newLen, s')))"

text \<open>The \<^verbatim>\<open>finally\<close> block.\<close>

definition finallyBlock :: "nat \<Rightarrow> nat \<Rightarrow> world \<Rightarrow> world" where
  "finallyBlock stringPtr z s = free_stemmer z (FreeHGlobal stringPtr s)"

text \<open>
  What one call of \<^verbatim>\<open>Stemmer::StemWord\<close> goes through: the pointer \<^verbatim>\<open>stringPtr\<close> and
  the context \<^verbatim>\<open>z\<close> that it obtained, the world on entry to the \<^verbatim>\<open>try\<close> block, the
  world on exit from it, the outcome (the string returned or the exception raised) and
  the world after the \<^verbatim>\<open>finally\<close> block.
\<close>

record callRun =
  ptr :: nat
  ctx :: nat
  atTry :: world
  afterTry :: world
  outcome :: "exception + string"
  atExit :: world

text \<open>
  The statements of \<^verbatim>\<open>Stemmer::StemWord\<close> in their order: marshal the word, create a
  context, run the body, and run the \<^verbatim>\<open>finally\<close> block whether the body returned or
  raised (\<^verbatim>\<open>catch( ... ) { throw; }\<close> passes every exception on).
\<close>

definition StemWordRun :: "nativeStem \<Rightarrow> nat option \<Rightarrow> world \<Rightarrow> callRun" where
  "StemWordRun f word s =
     (let (stringPtr, s1) = StringToHGlobalAnsi word s;
          (z, s2) = create_stemmer s1;
          (result, s3) = tryBody f word stringPtr z s2
      in \<lparr>ptr = stringPtr, ctx = z, atTry = s2, afterTry = s3, outcome = result,
          atExit = finallyBlock stringPtr z s3\<rparr>)"

text \<open>
  \<^verbatim>\<open>Stemmer::StemWord\<close> as its caller sees it: the outcome of the run and the world that
  the run leaves.
\<close>

definition StemWord ::
  "nativeStem \<Rightarrow> nat option \<Rightarrow> world \<Rightarrow> (exception + string) \<times> world" where
  "StemWord f word s = (outcome (StemWordRun f word s), atExit (StemWordRun f word s))"

text \<open>
  The same call with other activity between its statements, as when calls overlap in
  time: \<open>e1\<close> runs after the word has been marshalled, \<open>e2\<close> after the context has
  been created and \<open>e3\<close> before the \<^verbatim>\<open>finally\<close> block.
\<close>

definition StemWordAmid ::
  "nativeStem \<Rightarrow> (world \<Rightarrow> world) \<Rightarrow> (world \<Rightarrow> world) \<Rightarrow> (world \<Rightarrow> world) \<Rightarrow>
   nat option \<Rightarrow> world \<Rightarrow> (exception + string) \<times> world" where
  "StemWordAmid f e1 e2 e3 word s =
     (let (stringPtr, s1) = StringToHGlobalAnsi word s;
          (z, s2) = create_stemmer (e1 s1);
          (result, s3) = tryBody f word stringPtr z (e2 s2)
      in (result, finallyBlock stringPtr z (e3 s3)))"

text \<open>
  An activity \<open>e\<close> leaves the block at \<open>p\<close> alone: where the block is allocated, \<open>e\<close>
  keeps it allocated, keeps its bytes and keeps the managed strings.
\<close>

definition leavesBlock :: "nat \<Rightarrow> (world \<Rightarrow> world) \<Rightarrow> bool" where
  "leavesBlock p e =
     (\<forall>t. p \<in> set (hglobal t) \<longrightarrow>
        p \<in> set (hglobal (e t)) \<and> memory (e t) p = memory t p \<and> strings (e t) = strings t)"

text \<open>A world in which nothing is allocated and every managed string reads \<open>w\<close>.\<close>

definition worldOf :: "string \<Rightarrow> world" where
  "worldOf w = \<lparr>strings = (\<lambda>h. w), memory = (\<lambda>a. []), hglobal = [], stemmers = []\<rparr>"

text \<open>A rule whose replacement is no longer than its suffix.\<close>

definition shrinking :: "suffixRule \<Rightarrow> bool" where
  "shrinking r = (length (replacement r) \<le> length (suffix r))"

section \<open>Properties of the wrapper, for any native stemmer\<close>

subsection \<open>Fresh addresses\<close>

lemma fold_max_ge: "m \<le> fold max xs (m::nat)"
  by (induction xs arbitrary: m) (auto intro: order_trans [OF max.cobounded2])

lemma fold_max_mem: "x \<in> set xs \<Longrightarrow> x \<le> fold max xs (m::nat)"
proof (induction xs arbitrary: m)
  case Nil
  then show ?case by simp
next
  case (Cons y ys)
  show ?case
  proof (cases "x = y")
    case True
    have "y \<le> max y m" by simp
    also have "\<dots> \<le> fold max ys (max y m)" by (rule fold_max_ge)
    finally show ?thesis using True by simp
  next
    case False
    with Cons.prems have "x \<in> set ys" by simp
    then show ?thesis using Cons.IH by simp
  qed
qed

lemma freshAddress_notin: "freshAddress used \<notin> set used"
proof
  assume "freshAddress used \<in> set used"
  then have "freshAddress used \<le> fold max used 0" by (rule fold_max_mem)
  then show False by (simp add: freshAddress_def)
qed

lemma freshAddress_pos: "freshAddress used \<noteq> 0"
  by (simp add: freshAddress_def)

lemma removeAll_fresh: "removeAll (freshAddress used) used = used"
  using freshAddress_notin [of used] by simp

subsection \<open>What a call returns and what it leaves behind\<close>

text \<open>A null word: the exception, and the world as it was.\<close>

lemma StemWord_null: "StemWord f None s = (Inl NullReferenceException, s)"
  by (simp add: StemWord_def StemWordRun_def StringToHGlobalAnsi_def create_stemmer_def tryBody_def
      finallyBlock_def FreeHGlobal_def free_stemmer_def Let_def removeAll_fresh)

text \<open>
  A word: the result is the substring of the word that the integer returned by the native
  function selects; the native function sees the ANSI copy and the length of the word.
\<close>

lemma StemWord_result:
  "fst (StemWord f (Some h) s) =
     Substring (strings s h) 0
       (fst (f (strings s h @ [CHR 0x00]) (int (length (strings s h)))))"
  by (simp add: StemWord_def StemWordRun_def StringToHGlobalAnsi_def create_stemmer_def tryBody_def
      callStem_def Let_def split: prod.splits)

text \<open>The world after the call differs only in the bytes at the address of the copy.\<close>

lemma StemWord_world:
  "snd (StemWord f (Some h) s) =
     s\<lparr>memory := (memory s)(freshAddress (hglobal s) :=
          snd (f (strings s h @ [CHR 0x00]) (int (length (strings s h)))))\<rparr>"
  by (simp add: StemWord_def StemWordRun_def StringToHGlobalAnsi_def create_stemmer_def tryBody_def
      callStem_def finallyBlock_def FreeHGlobal_def free_stemmer_def Let_def
      removeAll_fresh freshAddress_pos split: prod.splits)

text \<open>The run of a call on a word, field by field.\<close>

lemma StemWordRun_Some:
  "StemWordRun f (Some h) s =
     \<lparr>ptr = freshAddress (hglobal s),
      ctx = freshAddress (stemmers s),
      atTry = s\<lparr>memory := (memory s)(freshAddress (hglobal s) := strings s h @ [CHR 0x00]),
                hglobal := freshAddress (hglobal s) # hglobal s,
                stemmers := freshAddress (stemmers s) # stemmers s\<rparr>,
      afterTry = s\<lparr>memory := (memory s)(freshAddress (hglobal s) :=
                     snd (f (strings s h @ [CHR 0x00]) (int (length (strings s h))))),
                   hglobal := freshAddress (hglobal s) # hglobal s,
                   stemmers := freshAddress (stemmers s) # stemmers s\<rparr>,
      outcome = Substring (strings s h) 0
                  (fst (f (strings s h @ [CHR 0x00]) (int (length (strings s h))))),
      atExit = s\<lparr>memory := (memory s)(freshAddress (hglobal s) :=
                   snd (f (strings s h @ [CHR 0x00]) (int (length (strings s h)))))\<rparr>\<rparr>"
  by (simp add: StemWordRun_def StringToHGlobalAnsi_def create_stemmer_def tryBody_def
      callStem_def finallyBlock_def FreeHGlobal_def free_stemmer_def Let_def
      removeAll_fresh freshAddress_pos split: prod.splits)

text \<open>The run of a call on a null word: no block, a context, the exception.\<close>

lemma StemWordRun_None:
  "StemWordRun f None s =
     \<lparr>ptr = 0,
      ctx = freshAddress (stemmers s),
      atTry = s\<lparr>stemmers := freshAddress (stemmers s) # stemmers s\<rparr>,
      afterTry = s\<lparr>stemmers := freshAddress (stemmers s) # stemmers s\<rparr>,
      outcome = Inl NullReferenceException,
      atExit = s\<rparr>"
  by (simp add: StemWordRun_def StringToHGlobalAnsi_def create_stemmer_def tryBody_def
      finallyBlock_def FreeHGlobal_def free_stemmer_def Let_def removeAll_fresh)

lemma StemWordRun_ctx:
  "ctx (StemWordRun f word s) = freshAddress (stemmers s) \<and>
   stemmers (atTry (StemWordRun f word s)) = freshAddress (stemmers s) # stemmers s"
  by (cases word) (simp_all add: StemWordRun_None StemWordRun_Some)

lemma StemWordRun_held:
  "hglobal (afterTry (StemWordRun f word s)) = hglobal (atTry (StemWordRun f word s)) \<and>
   stemmers (afterTry (StemWordRun f word s)) = stemmers (atTry (StemWordRun f word s))"
  by (cases word) (simp_all add: StemWordRun_None StemWordRun_Some)

lemma StemWord_strings: "strings (snd (StemWord f word s)) = strings s"
  by (cases word) (simp_all add: StemWord_null StemWord_world)

lemma StemWord_hglobal: "hglobal (snd (StemWord f word s)) = hglobal s"
  by (cases word) (simp_all add: StemWord_null StemWord_world)

lemma StemWord_stemmers: "stemmers (snd (StemWord f word s)) = stemmers s"
  by (cases word) (simp_all add: StemWord_null StemWord_world)

lemma StemWord_result_indep:
  "map_option (strings s) word = map_option (strings s') word' \<Longrightarrow>
   fst (StemWord f word s) = fst (StemWord f word' s')"
  by (cases word; cases word') (simp_all add: StemWord_null StemWord_result)

lemma Substring_prefix:
  "Substring str 0 n = Inr r \<Longrightarrow> prefix r str \<and> length r \<le> length str"
  by (auto simp: Substring_def take_is_prefix split: if_splits)

lemma strings_worldOf: "strings (worldOf w) h = w"
  by (simp add: worldOf_def)

text \<open>No native stemmer makes the wrapper turn "relational" into "relate".\<close>

lemma StemWord_never_relate:
  assumes "strings s h = ''relational''"
  shows "fst (StemWord f (Some h) s) \<noteq> Inr ''relate''"
proof
  assume "fst (StemWord f (Some h) s) = Inr ''relate''"
  then have "Substring ''relational'' 0
       (fst (f (''relational'' @ [CHR 0x00]) (int (length ''relational'')))) = Inr ''relate''"
    using assms by (simp add: StemWord_result)
  then have "prefix ''relate'' ''relational''"
    by (rule Substring_prefix [THEN conjunct1])
  then show False by simp
qed

subsection \<open>Calls that overlap\<close>

text \<open>A whole call leaves every allocated block alone: its own copy is a new block.\<close>

lemma StemWord_leavesBlock: "leavesBlock p (\<lambda>t. snd (StemWord f word t))"
proof (cases word)
  case None
  then show ?thesis by (simp add: leavesBlock_def StemWord_null)
next
  case (Some h)
  have "freshAddress (hglobal t) \<noteq> p" if "p \<in> set (hglobal t)" for t
    using that freshAddress_notin [of "hglobal t"] by auto
  with Some show ?thesis
    by (auto simp: leavesBlock_def StemWord_world)
qed

lemma StemWordAmid_null:
  "fst (StemWordAmid f e1 e2 e3 None s) = Inl NullReferenceException"
  by (simp add: StemWordAmid_def StringToHGlobalAnsi_def create_stemmer_def tryBody_def
      Let_def)

text \<open>
  Activity that leaves the block of the call alone does not change what the call returns:
  the native stemmer still finds the copy of the word at \<open>stringPtr\<close>.
\<close>

lemma StemWordAmid_result:
  assumes e1: "leavesBlock (freshAddress (hglobal s)) e1"
    and e2: "leavesBlock (freshAddress (hglobal s)) e2"
  shows "fst (StemWordAmid f e1 e2 e3 (Some h) s) = fst (StemWord f (Some h) s)"
proof -
  define p where "p = freshAddress (hglobal s)"
  define s1 where "s1 = s\<lparr>memory := (memory s)(p := strings s h @ [CHR 0x00]),
    hglobal := p # hglobal s\<rparr>"
  define s2 where
    "s2 = (e1 s1)\<lparr>stemmers := freshAddress (stemmers (e1 s1)) # stemmers (e1 s1)\<rparr>"
  have in1: "p \<in> set (hglobal s1)" by (simp add: s1_def)
  from e1 in1 have k1: "p \<in> set (hglobal (e1 s1))" "memory (e1 s1) p = memory s1 p"
    "strings (e1 s1) = strings s1"
    unfolding leavesBlock_def p_def by blast+
  then have in2: "p \<in> set (hglobal s2)" by (simp add: s2_def)
  from e2 in2 have k2: "memory (e2 s2) p = memory s2 p" "strings (e2 s2) = strings s2"
    unfolding leavesBlock_def p_def by blast+
  have m: "memory (e2 s2) p = strings s h @ [CHR 0x00]"
    using k1 k2 by (simp add: s2_def s1_def)
  have st: "strings (e2 s2) = strings s"
    using k1 k2 by (simp add: s2_def s1_def)
  have "fst (StemWordAmid f e1 e2 e3 (Some h) s) =
      fst (tryBody f (Some h) p (freshAddress (stemmers (e1 s1))) (e2 s2))"
    by (simp add: StemWordAmid_def StringToHGlobalAnsi_def create_stemmer_def Let_def
        p_def s1_def s2_def split: prod.splits)
  also have "\<dots> = Substring (strings s h) 0
       (fst (f (strings s h @ [CHR 0x00]) (int (length (strings s h)))))"
    by (simp add: tryBody_def callStem_def m st split: prod.splits)
  finally show ?thesis by (simp add: StemWord_result)
qed

lemma StemWordAmid_fst:
  assumes "leavesBlock (freshAddress (hglobal s)) e1"
    and "leavesBlock (freshAddress (hglobal s)) e2"
  shows "fst (StemWordAmid f e1 e2 e3 word s) = fst (StemWord f word s)"
proof (cases word)
  case None
  then show ?thesis by (simp add: StemWordAmid_null StemWord_null)
next
  case (Some h)
  with assms show ?thesis by (simp add: StemWordAmid_result)
qed

section \<open>Properties of the engine\<close>

subsection \<open>No step lengthens a word\<close>

lemma length_stemBefore:
  "ends w sfx \<Longrightarrow> length (stemBefore w sfx) + length sfx = length w"
  by (simp add: ends_def stemBefore_def)

lemma step1a_length: "length (step1a w) \<le> length w"
  by (auto simp: step1a_def dest: length_stemBefore)

text \<open>The cleanup may append an e, to a stem that has lost at least two characters.\<close>

lemma step1b1_length: "length (step1b1 st) \<le> Suc (length st)"
  by (auto simp: step1b1_def)

lemma step1b_length: "length (step1b w) \<le> length w"
proof -
  have ed: "length (step1b1 (stemBefore w sfx)) \<le> length w"
    if "ends w sfx" "2 \<le> length sfx" for sfx
    using step1b1_length [of "stemBefore w sfx"] length_stemBefore [OF that(1)] that(2)
    by arith
  have eed: "length (stemBefore w ''eed'' @ ''ee'') \<le> length w" if "ends w ''eed''"
    using length_stemBefore [OF that] by simp
  show ?thesis
    unfolding step1b_def using ed [of "''ed''"] ed [of "''ing''"] eed by simp
qed

lemma step1c_length: "length (step1c w) \<le> length w"
  by (auto simp: step1c_def dest: length_stemBefore)

lemma step1_length: "length (step1 w) \<le> length w"
  unfolding step1_def
  by (rule order_trans [OF step1c_length])
    (rule order_trans [OF step1b_length step1a_length])

lemma applyRules_length:
  "list_all shrinking rs \<Longrightarrow> length (applyRules rs w) \<le> length w"
proof (induction rs)
  case Nil
  then show ?case by simp
next
  case (Cons r rs)
  from Cons.prems have rs: "list_all shrinking rs" and "shrinking r"
    by simp_all
  then have r: "length (replacement r) \<le> length (suffix r)"
    by (simp add: shrinking_def)
  show ?case
  proof (cases "ends w (suffix r)")
    case True
    from length_stemBefore [OF True] r
    have "length (stemBefore w (suffix r) @ replacement r) \<le> length w" by simp
    with True show ?thesis by simp
  next
    case False
    with Cons.IH [OF rs] show ?thesis by simp
  qed
qed

lemma step2_length: "length (step2 w) \<le> length w"
  unfolding step2_def
  by (rule applyRules_length) (simp add: step2Rules_def shrinking_def rule_def)

lemma step3_length: "length (step3 w) \<le> length w"
  unfolding step3_def
  by (rule applyRules_length) (simp add: step3Rules_def shrinking_def rule_def)

lemma step4_length: "length (step4 w) \<le> length w"
  unfolding step4_def
  by (rule applyRules_length) (simp add: step4Rules_def shrinking_def rule_def)

lemma step5_length: "length (step5 w) \<le> length w"
proof -
  have a: "length (step5a w) \<le> length w"
    by (simp add: step5a_def stemBefore_def)
  have b: "length (step5b v) \<le> length v" for v
    by (simp add: step5b_def)
  show ?thesis unfolding step5_def by (rule order_trans [OF b a])
qed

lemma stemEngine_length: "length (stemEngine w) \<le> length w"
proof -
  have "length (stemEngine w) \<le> length (step4 (step3 (step2 (step1 w))))"
    unfolding stemEngine_def by (rule step5_length)
  also have "\<dots> \<le> length (step3 (step2 (step1 w)))" by (rule step4_length)
  also have "\<dots> \<le> length (step2 (step1 w))" by (rule step3_length)
  also have "\<dots> \<le> length (step1 w)" by (rule step2_length)
  also have "\<dots> \<le> length w" by (rule step1_length)
  finally show ?thesis .
qed

subsection \<open>The wrapper over the engine\<close>

lemma stem_fst: "fst (stem (w @ z) (int (length w))) = int (length (stemEngine w))"
  by (simp add: stem_def Let_def)

text \<open>
  With the engine as native stemmer the wrapper returns as many characters of the word as
  the stem has.
\<close>

lemma StemWord_stem:
  "fst (StemWord stem (Some h) s) =
     Inr (take (length (stemEngine (strings s h))) (strings s h))"
  using stemEngine_length [of "strings s h"]
  by (simp add: StemWord_result stem_fst Substring_def)

subsection \<open>Some words\<close>

lemma stemEngine_relational: "stemEngine ''relational'' = ''relat''"
  by code_simp

lemma stemEngine_feed: "stemEngine ''feed'' = ''feed''"
  by code_simp

lemma stemEngine_agreed: "stemEngine ''agreed'' = ''agre''"
  by code_simp

lemma stemEngine_agre: "stemEngine ''agre'' = ''agr''"
  by code_simp

lemma stemEngine_ponies: "stemEngine ''ponies'' = ''poni''"
  by code_simp

lemma stemEngine_empty: "stemEngine [] = []"
  by code_simp

section \<open>The claims\<close>

text \<open>
  Claim C1. Whenever \<^verbatim>\<open>StemWord\<close> returns a string, that string is a
  character-for-character prefix of the input word, and it is no longer than the input
  word. This holds for every native stemmer, since the wrapper returns
  \<^verbatim>\<open>word->Substring( 0, newLen )\<close>.
\<close>

theorem StemWord_prefix_of_input:
  assumes "fst (StemWord f (Some h) s) = Inr r"
  shows "prefix r (strings s h) \<and> length r \<le> length (strings s h)"
  using assms unfolding StemWord_result by (rule Substring_prefix)

theorem StemWord_prefix_of_input_witness:
  "fst (StemWord stem (Some 0) (worldOf ''ponies'')) = Inr ''poni'' \<and>
   prefix ''poni'' (strings (worldOf ''ponies'') 0) \<and>
   length ''poni'' \<le> length (strings (worldOf ''ponies'') 0)"
proof -
  have h: "fst (StemWord stem (Some 0) (worldOf ''ponies'')) = Inr ''poni''"
    by (simp add: StemWord_stem strings_worldOf stemEngine_ponies)
  from StemWord_prefix_of_input [OF h] h show ?thesis by simp
qed

text \<open>
  Claim C2, as stated: the stem of "relational" is "relate". It is not: step 2 turns
  "relational" into "relate", and step 5a then removes the final e, because the measure of
  "relat" is 2. The wrapper could not return "relate" for any native stemmer either, since
  "relate" is no prefix of "relational".
\<close>

theorem stem_relational_counterexample:
  "fst (StemWord stem (Some 0) (worldOf ''relational'')) \<noteq> Inr ''relate''"
  by (simp add: StemWord_stem strings_worldOf stemEngine_relational)

text \<open>
  Claim C2, amended: the stem of "relational" is "relat", for the engine and for the
  wrapper over it.
\<close>

theorem stem_relational:
  assumes "strings s h = ''relational''"
  shows "fst (StemWord stem (Some h) s) = Inr ''relat'' \<and>
         stemEngine ''relational'' = ''relat'' \<and>
         step2 ''relational'' = ''relate'' \<and> measureVC ''relat'' = 2"
proof -
  have "fst (StemWord stem (Some h) s) = Inr ''relat''"
    using assms by (simp add: StemWord_stem stemEngine_relational)
  moreover have "step2 ''relational'' = ''relate''" by code_simp
  moreover have "measureVC ''relat'' = 2" by code_simp
  ultimately show ?thesis by (simp add: stemEngine_relational)
qed

theorem stem_relational_witness:
  "strings (worldOf ''relational'') 0 = ''relational'' \<and>
   fst (StemWord stem (Some 0) (worldOf ''relational'')) = Inr ''relat''"
proof -
  have h: "strings (worldOf ''relational'') 0 = ''relational''"
    by (simp add: worldOf_def)
  from stem_relational [OF h] h show ?thesis by simp
qed

text \<open>
  Claim C3. The stem of the empty string is the empty string, for the engine and for the
  wrapper over it.
\<close>

theorem stem_empty:
  assumes "strings s h = []"
  shows "fst (StemWord stem (Some h) s) = Inr [] \<and> stemEngine [] = []"
  using assms by (simp add: StemWord_stem stemEngine_empty)

theorem stem_empty_witness:
  "strings (worldOf []) 0 = [] \<and> fst (StemWord stem (Some 0) (worldOf [])) = Inr []"
proof -
  have h: "strings (worldOf []) 0 = []"
    by (simp add: worldOf_def)
  from stem_empty [OF h] h show ?thesis by simp
qed

text \<open>
  Claim C4, as stated: for a null word \<^verbatim>\<open>StemWord\<close> raises an invalid-argument
  exception. It raises \<^verbatim>\<open>NullReferenceException\<close>, which is none.
\<close>

theorem StemWord_null_counterexample:
  "fst (StemWord stem None (worldOf [])) = Inl NullReferenceException \<and>
   \<not> isArgumentException NullReferenceException"
  by (simp add: StemWord_null)

text \<open>
  Claim C4, amended: for a null word \<^verbatim>\<open>StemWord\<close> returns no stem; it raises
  \<^verbatim>\<open>NullReferenceException\<close>, whatever the native stemmer and the world are, and
  leaves the world as it was.
\<close>

theorem StemWord_null_raises:
  "StemWord f None s = (Inl NullReferenceException, s)"
  by (simp add: StemWord_def StemWordRun_def StringToHGlobalAnsi_def create_stemmer_def tryBody_def
      finallyBlock_def FreeHGlobal_def free_stemmer_def Let_def removeAll_fresh)

text \<open>
  Claim C5. The stem of "feed" is "feed": the suffix "eed" matches, the measure of the
  stem "f" before it is 0, so step 1b leaves the word as it is, and no later step changes
  it.
\<close>

theorem stem_feed:
  assumes "strings s h = ''feed''"
  shows "fst (StemWord stem (Some h) s) = Inr ''feed'' \<and>
         stemEngine ''feed'' = ''feed'' \<and>
         ends ''feed'' ''eed'' \<and> stemBefore ''feed'' ''eed'' = ''f'' \<and>
         measureVC ''f'' = 0 \<and> step1b ''feed'' = ''feed''"
proof -
  have "fst (StemWord stem (Some h) s) = Inr ''feed''"
    using assms by (simp add: StemWord_stem stemEngine_feed)
  moreover have "ends ''feed'' ''eed''" by code_simp
  moreover have "stemBefore ''feed'' ''eed'' = ''f''" by code_simp
  moreover have "measureVC ''f'' = 0" by code_simp
  moreover have "step1b ''feed'' = ''feed''" by code_simp
  ultimately show ?thesis by (simp add: stemEngine_feed)
qed

theorem stem_feed_witness:
  "strings (worldOf ''feed'') 0 = ''feed'' \<and>
   fst (StemWord stem (Some 0) (worldOf ''feed'')) = Inr ''feed''"
proof -
  have h: "strings (worldOf ''feed'') 0 = ''feed''"
    by (simp add: worldOf_def)
  from stem_feed [OF h] h show ?thesis by simp
qed

text \<open>
  Claim C6. \<^verbatim>\<open>StemWord\<close> is deterministic: what a call returns (a string or an
  exception) is decided by the characters of its word alone. Two calls on equal words
  return the same, in whatever worlds they start; a call returns the same whether or not
  another call has run before it; and it returns the same when other activity runs
  between its statements, as long as that activity leaves the block of the call alone,
  which other calls of \<^verbatim>\<open>StemWord\<close> do.
\<close>

theorem StemWord_deterministic:
  assumes "map_option (strings s) word = map_option (strings s') word'"
    and "leavesBlock (freshAddress (hglobal s)) e1"
    and "leavesBlock (freshAddress (hglobal s)) e2"
  shows "fst (StemWord f word s) = fst (StemWord f word' s') \<and>
         fst (StemWord f word (snd (StemWord f word'' s))) = fst (StemWord f word s) \<and>
         fst (StemWordAmid f e1 e2 e3 word s) = fst (StemWord f word s)"
proof (intro conjI)
  show "fst (StemWord f word s) = fst (StemWord f word' s')"
    using assms(1) by (rule StemWord_result_indep)
  show "fst (StemWord f word (snd (StemWord f word'' s))) = fst (StemWord f word s)"
    by (rule StemWord_result_indep) (simp add: StemWord_strings)
  show "fst (StemWordAmid f e1 e2 e3 word s) = fst (StemWord f word s)"
    using assms(2,3) by (rule StemWordAmid_fst)
qed

theorem StemWord_deterministic_witness:
  "map_option (strings (worldOf ''agreed'')) (Some 0) =
     map_option (strings ((worldOf ''agreed'')\<lparr>hglobal := [2, 1], stemmers := [5]\<rparr>)) (Some 7) \<and>
   leavesBlock (freshAddress (hglobal (worldOf ''agreed'')))
     (\<lambda>t. snd (StemWord stem (Some 3) t)) \<and>
   leavesBlock (freshAddress (hglobal (worldOf ''agreed'')))
     (\<lambda>t. snd (StemWord stem None t)) \<and>
   fst (StemWord stem (Some 0) (worldOf ''agreed'')) =
     fst (StemWord stem (Some 7) ((worldOf ''agreed'')\<lparr>hglobal := [2, 1], stemmers := [5]\<rparr>)) \<and>
   fst (StemWord stem (Some 0) (snd (StemWord stem None (worldOf ''agreed'')))) =
     fst (StemWord stem (Some 0) (worldOf ''agreed'')) \<and>
   fst (StemWordAmid stem (\<lambda>t. snd (StemWord stem (Some 3) t))
          (\<lambda>t. snd (StemWord stem None t)) (\<lambda>t. t) (Some 0) (worldOf ''agreed'')) =
     fst (StemWord stem (Some 0) (worldOf ''agreed''))"
proof -
  have h: "map_option (strings (worldOf ''agreed'')) (Some 0) =
     map_option (strings ((worldOf ''agreed'')\<lparr>hglobal := [2, 1], stemmers := [5]\<rparr>)) (Some 7)"
    by (simp add: worldOf_def)
  have k1: "leavesBlock (freshAddress (hglobal (worldOf ''agreed'')))
     (\<lambda>t. snd (StemWord stem (Some 3) t))"
    by (rule StemWord_leavesBlock)
  have k2: "leavesBlock (freshAddress (hglobal (worldOf ''agreed'')))
     (\<lambda>t. snd (StemWord stem None t))"
    by (rule StemWord_leavesBlock)
  from StemWord_deterministic [OF h k1 k2, of stem None "\<lambda>t. t"] h k1 k2
  show ?thesis by simp
qed

text \<open>
  Claim C7. Stemming is not idempotent: there is a word whose stem is stemmed further.
  "agreed" gives "agre" and "agre" gives "agr", for the engine and for the wrapper over it.
\<close>

theorem StemWord_not_idempotent:
  "(\<exists>w. stemEngine (stemEngine w) \<noteq> stemEngine w) \<and>
   (\<exists>s h r s' h' r'. fst (StemWord stem (Some h) s) = Inr r \<and> strings s' h' = r \<and>
      fst (StemWord stem (Some h') s') = Inr r' \<and> r' \<noteq> r)"
proof
  have "stemEngine (stemEngine ''agreed'') \<noteq> stemEngine ''agreed''"
    by (simp add: stemEngine_agreed stemEngine_agre)
  then show "\<exists>w. stemEngine (stemEngine w) \<noteq> stemEngine w" ..
next
  have "fst (StemWord stem (Some 0) (worldOf ''agreed'')) = Inr ''agre''"
    by (simp add: StemWord_stem strings_worldOf stemEngine_agreed)
  moreover have "strings (worldOf ''agre'') 0 = ''agre''"
    by (rule strings_worldOf)
  moreover have "fst (StemWord stem (Some 0) (worldOf ''agre'')) = Inr ''agr''"
    by (simp add: StemWord_stem strings_worldOf stemEngine_agre)
  moreover have "''agr'' \<noteq> ''agre''" by simp
  ultimately show "\<exists>s h r s' h' r'. fst (StemWord stem (Some h) s) = Inr r \<and>
      strings s' h' = r \<and> fst (StemWord stem (Some h') s') = Inr r' \<and> r' \<noteq> r"
    by blast
qed

text \<open>
  Claim C8. Stemming is total: for every word, and so for every word of lowercase ASCII
  letters, \<^verbatim>\<open>StemWord\<close> over the engine returns a string and raises nothing. The engine
  is a composition of total functions, its stem is never longer than the word, and so the
  range check of \<^verbatim>\<open>Substring\<close> never fails.
\<close>

theorem StemWord_total:
  "\<exists>r. fst (StemWord stem (Some h) s) = Inr r \<and> length (stemEngine (strings s h)) = length r"
proof -
  have "length (stemEngine (strings s h)) \<le> length (strings s h)"
    by (rule stemEngine_length)
  then show ?thesis
    by (simp add: StemWord_result stem_fst Substring_def)
qed

text \<open>
  Claim C9. Every call acquires a context of its own and, for a word, a block of its own;
  it holds them through the \<^verbatim>\<open>try\<close> block and releases both on every exit path,
  whether the call returns a string or raises an exception, for every native stemmer.
  In the run of a call: the context is one that was not allocated before and is allocated
  on entry to the \<^verbatim>\<open>try\<close> block; for a word the pointer is not null, its block was
  not allocated before, is allocated on entry and holds the copy of the word; for a null
  word the pointer is null and no block is allocated. On exit from the \<^verbatim>\<open>try\<close> block
  the same blocks and contexts are allocated as on entry. After the call the block and
  the context of the call are not allocated, and the allocated blocks and contexts are
  those from before the call. No state is shared across calls: the outcome does not
  depend on the unmanaged memory, the blocks or the contexts that a call finds.
\<close>

theorem StemWord_acquires_and_releases:
  "(let r = StemWordRun f word s; rw = StemWordRun f (Some h) s; rn = StemWordRun f None s
    in StemWord f word s = (outcome r, atExit r) \<and>
       ctx r \<notin> set (stemmers s) \<and>
       stemmers (atTry r) = ctx r # stemmers s \<and>
       ptr rw \<noteq> 0 \<and>
       ptr rw \<notin> set (hglobal s) \<and>
       hglobal (atTry rw) = ptr rw # hglobal s \<and>
       memory (atTry rw) (ptr rw) = strings s h @ [CHR 0x00] \<and>
       ptr rn = 0 \<and>
       hglobal (atTry rn) = hglobal s \<and>
       hglobal (afterTry r) = hglobal (atTry r) \<and>
       stemmers (afterTry r) = stemmers (atTry r) \<and>
       ptr rw \<notin> set (hglobal (snd (StemWord f (Some h) s))) \<and>
       ctx r \<notin> set (stemmers (snd (StemWord f word s))) \<and>
       hglobal (snd (StemWord f word s)) = hglobal s \<and>
       stemmers (snd (StemWord f word s)) = stemmers s \<and>
       fst (StemWord f word (s\<lparr>memory := m, hglobal := bs, stemmers := zs\<rparr>)) =
         fst (StemWord f word s))"
proof -
  have call: "StemWord f word s =
      (outcome (StemWordRun f word s), atExit (StemWordRun f word s))"
    by (simp add: StemWord_def)
  have own: "ctx (StemWordRun f word s) \<notin> set (stemmers s)"
    "stemmers (atTry (StemWordRun f word s)) = ctx (StemWordRun f word s) # stemmers s"
    by (simp_all add: StemWordRun_ctx freshAddress_notin)
  have block: "ptr (StemWordRun f (Some h) s) \<noteq> 0"
    "ptr (StemWordRun f (Some h) s) \<notin> set (hglobal s)"
    "hglobal (atTry (StemWordRun f (Some h) s)) = ptr (StemWordRun f (Some h) s) # hglobal s"
    "memory (atTry (StemWordRun f (Some h) s)) (ptr (StemWordRun f (Some h) s)) =
       strings s h @ [CHR 0x00]"
    by (simp_all add: StemWordRun_Some freshAddress_pos freshAddress_notin)
  have none: "ptr (StemWordRun f None s) = 0"
    "hglobal (atTry (StemWordRun f None s)) = hglobal s"
    by (simp_all add: StemWordRun_None)
  have held: "hglobal (afterTry (StemWordRun f word s)) = hglobal (atTry (StemWordRun f word s))"
    "stemmers (afterTry (StemWordRun f word s)) = stemmers (atTry (StemWordRun f word s))"
    by (simp_all add: StemWordRun_held)
  have released: "ptr (StemWordRun f (Some h) s) \<notin> set (hglobal (snd (StemWord f (Some h) s)))"
    "ctx (StemWordRun f word s) \<notin> set (stemmers (snd (StemWord f word s)))"
    "hglobal (snd (StemWord f word s)) = hglobal s"
    "stemmers (snd (StemWord f word s)) = stemmers s"
    by (simp_all add: StemWord_hglobal StemWord_stemmers StemWordRun_Some StemWordRun_ctx
        freshAddress_notin)
  have unshared: "fst (StemWord f word (s\<lparr>memory := m, hglobal := bs, stemmers := zs\<rparr>)) =
      fst (StemWord f word s)"
    by (rule StemWord_result_indep) simp
  from call own block none held released unshared show ?thesis
    unfolding Let_def by (intro conjI)
qed

text \<open>
  The theorem on an exceptional exit: a native stemmer that returns one more than the
  length makes \<^verbatim>\<open>Substring\<close> raise; block 1 and context 1 are allocated on entry to the
  \<^verbatim>\<open>try\<close> block and nothing is allocated after the call.
\<close>

theorem StemWord_acquires_and_releases_witness:
  "fst (StemWord (\<lambda>b k. (k + 1, b)) (Some 0) (worldOf ''ab'')) =
     Inl ArgumentOutOfRangeException \<and>
   ptr (StemWordRun (\<lambda>b k. (k + 1, b)) (Some 0) (worldOf ''ab'')) = 1 \<and>
   ctx (StemWordRun (\<lambda>b k. (k + 1, b)) (Some 0) (worldOf ''ab'')) = 1 \<and>
   hglobal (atTry (StemWordRun (\<lambda>b k. (k + 1, b)) (Some 0) (worldOf ''ab''))) = [1] \<and>
   stemmers (atTry (StemWordRun (\<lambda>b k. (k + 1, b)) (Some 0) (worldOf ''ab''))) = [1] \<and>
   hglobal (snd (StemWord (\<lambda>b k. (k + 1, b)) (Some 0) (worldOf ''ab''))) = [] \<and>
   stemmers (snd (StemWord (\<lambda>b k. (k + 1, b)) (Some 0) (worldOf ''ab''))) = []"
proof -
  have p: "ptr (StemWordRun (\<lambda>b k. (k + 1, b)) (Some 0) (worldOf ''ab'')) = 1"
    by (simp add: StemWordRun_Some worldOf_def freshAddress_def)
  have c: "ctx (StemWordRun (\<lambda>b k. (k + 1, b)) (Some 0) (worldOf ''ab'')) = 1"
    by (simp add: StemWordRun_Some worldOf_def freshAddress_def)
  have e: "fst (StemWord (\<lambda>b k. (k + 1, b)) (Some 0) (worldOf ''ab'')) =
     Inl ArgumentOutOfRangeException"
    by (simp add: StemWord_result worldOf_def Substring_def)
  have w: "hglobal (worldOf ''ab'') = []" "stemmers (worldOf ''ab'') = []"
    by (simp_all add: worldOf_def)
  from StemWord_acquires_and_releases
    [of "\<lambda>b k. (k + 1, b)" "Some 0" "worldOf ''ab''" 0]
  show ?thesis unfolding Let_def using p c e w by (simp add: StemWord_def)
qed

text \<open>
  Claim C10. \<^verbatim>\<open>StemWord\<close> never modifies the caller's string: the managed strings
  after the call are those before it. The native stemmer works on the ANSI copy, at an
  address that was not allocated before the call and is not allocated after it; the
  bytes left at that address are the only difference between the world after the call
  and the world before it.
\<close>

theorem StemWord_frame:
  "strings (snd (StemWord f word s)) = strings s \<and>
   snd (StemWord f None s) = s \<and>
   snd (StemWord f (Some h) s) =
     s\<lparr>memory := (memory s)(freshAddress (hglobal s) :=
          snd (f (strings s h @ [CHR 0x00]) (int (length (strings s h)))))\<rparr> \<and>
   freshAddress (hglobal s) \<notin> set (hglobal s) \<and>
   freshAddress (hglobal s) \<notin> set (hglobal (snd (StemWord f word s)))"
  by (simp add: StemWord_strings StemWord_hglobal StemWord_null StemWord_world
      freshAddress_notin)

end
